theory Spec2Isabelle
  imports Complex_Main "HOL-Library.Word"
begin

section \<open>IDataType: the logical-type contract (dbms/src/DataTypes/IDataType.cpp)\<close>

subsection \<open>Machine integers and decimal printing\<close>

text \<open>\<^verbatim>\<open>size_t\<close> is an unsigned 64-bit integer; \<open>+\<close> wraps and \<open><\<close> is the unsigned order.\<close>

type_synonym size_t = "64 word"

definition digit_char :: "nat \<Rightarrow> char" where
  "digit_char d = ''0123456789'' ! d"

function decimal :: "nat \<Rightarrow> string" where
  "decimal n = (if n < 10 then [digit_char n] else decimal (n div 10) @ [digit_char (n mod 10)])"
  by pat_completeness auto
termination
  by (relation "measure (\<lambda>n. n)") auto

declare decimal.simps [simp del]

text \<open>
  Modelled from the spec: \<^verbatim>\<open>toString\<close> (IO/WriteHelpers.h) is not part of the source file. The
  spec's stream-name grammar \<^verbatim>\<open>.size<N>\<close> and its golden cases \<^verbatim>\<open>x.size1\<close>, \<^verbatim>\<open>n.size0\<close> fix it as
  the decimal rendering of the counter.
\<close>

definition toString :: "size_t \<Rightarrow> string" where
  "toString x = decimal (unat x)"

subsection \<open>Substream paths and stream names\<close>

text \<open>
  Modelled from the spec: the enum \<^verbatim>\<open>IDataType::Substream::Type\<close> is declared in IDataType.h, which
  is not part of the source file; the spec's data model lists these five kinds of marker, and they
  are the five the source tests for.
\<close>

datatype substream_type = NullMap | ArraySizes | ArrayElements | TupleElement | DictionaryKeys

record substream =
  type :: substream_type
  tuple_element_name :: string

type_synonym SubstreamPath = "substream list"

text \<open>
  \<^verbatim>\<open>escapeForFileName\<close> (Common/escapeForFileName.h) and \<^verbatim>\<open>Nested::extractTableName\<close>
  (DataTypes/NestedUtils.h) are not part of the source file: every definition below takes them as
  the parameters \<open>escapeForFileName\<close> and \<open>extractTableName\<close>.

  \<^verbatim>\<open>path.size() == 1 && path[0].type == ArraySizes && nested_table_name != column_name\<close>:
  the second conjunct is only read when the first holds, and the conjunction is false
  otherwise, whatever \<open>path ! 0\<close> is.
\<close>

definition is_sizes_of_nested_type :: "(string \<Rightarrow> string) \<Rightarrow> string \<Rightarrow> SubstreamPath \<Rightarrow> bool" where
  "is_sizes_of_nested_type extractTableName column_name path =
     (let nested_table_name = extractTableName column_name
      in length path = 1
         \<and> type (path ! 0) = ArraySizes
         \<and> nested_table_name \<noteq> column_name)"

text \<open>The body of the loop over the path: the state is \<open>(stream_name, array_level)\<close>.\<close>

fun stream_name_step :: "(string \<Rightarrow> string) \<Rightarrow> string \<times> size_t \<Rightarrow> substream \<Rightarrow> string \<times> size_t" where
  "stream_name_step escapeForFileName (stream_name, array_level) elem =
     (if type elem = NullMap then (stream_name @ ''.null'', array_level)
      else if type elem = ArraySizes then (stream_name @ ''.size'' @ toString array_level, array_level)
      else if type elem = ArrayElements then (stream_name, array_level + 1)
      else if type elem = TupleElement then
        (stream_name @ ''%2E'' @ escapeForFileName (tuple_element_name elem), array_level)
      else if type elem = DictionaryKeys then (stream_name @ ''.dict'', array_level)
      else (stream_name, array_level))"

definition getFileNameForStream ::
    "(string \<Rightarrow> string) \<Rightarrow> (string \<Rightarrow> string) \<Rightarrow> string \<Rightarrow> SubstreamPath \<Rightarrow> string" where
  "getFileNameForStream escapeForFileName extractTableName column_name path =
     (let nested_table_name = extractTableName column_name;
          array_level = 0;
          stream_name = escapeForFileName
            (if is_sizes_of_nested_type extractTableName column_name path
             then nested_table_name else column_name)
      in fst (foldl (stream_name_step escapeForFileName) (stream_name, array_level) path))"

subsection \<open>The stream-name grammar, as the specification words it\<close>

text \<open>
  The suffix one marker contributes at a given array nesting level, and the nesting level at
  position \<open>i\<close> of a path: the number of \<open>ArrayElements\<close> markers before that position.
\<close>

fun marker_suffix :: "(string \<Rightarrow> string) \<Rightarrow> nat \<Rightarrow> substream \<Rightarrow> string" where
  "marker_suffix esc level elem =
     (case type elem of
        NullMap \<Rightarrow> ''.null''
      | ArraySizes \<Rightarrow> ''.size'' @ decimal level
      | ArrayElements \<Rightarrow> ''''
      | TupleElement \<Rightarrow> ''%2E'' @ esc (tuple_element_name elem)
      | DictionaryKeys \<Rightarrow> ''.dict'')"

definition array_level_at :: "SubstreamPath \<Rightarrow> nat \<Rightarrow> nat" where
  "array_level_at path i = length (filter (\<lambda>e. type e = ArrayElements) (take i path))"

definition path_suffixes :: "(string \<Rightarrow> string) \<Rightarrow> SubstreamPath \<Rightarrow> string" where
  "path_suffixes esc path =
     concat (map (\<lambda>i. marker_suffix esc (array_level_at path i) (path ! i)) [0..<length path])"

text \<open>The same walk, written as a recursion that carries the level.\<close>

fun walk_suffixes :: "(string \<Rightarrow> string) \<Rightarrow> nat \<Rightarrow> SubstreamPath \<Rightarrow> string" where
  "walk_suffixes esc level [] = ''''"
| "walk_suffixes esc level (e # es) =
     marker_suffix esc level e
     @ walk_suffixes esc (if type e = ArrayElements then Suc level else level) es"

subsection \<open>Exceptions\<close>

text \<open>
  The three error codes the source file names (\<^verbatim>\<open>namespace ErrorCodes\<close>), and an exception
  as a message with its code. A function that throws returns \<open>Inl\<close> of the exception.
\<close>

datatype error_code = MULTIPLE_STREAMS_REQUIRED | LOGICAL_ERROR | DATA_TYPE_CANNOT_BE_PROMOTED

datatype exception = Exception (message: string) (code: error_code)

fun thrown_code :: "exception + 'a \<Rightarrow> error_code option" where
  "thrown_code (Inl e) = Some (code e)"
| "thrown_code (Inr v) = None"

subsection \<open>Text serialization methods\<close>

text \<open>
  The ten virtual text methods that the source calls, on the type itself and on a domain with
  custom serialization. Columns, buffers and format settings are opaque (type variables); a
  method's outcome (what it did to the buffer or the column, or what it threw) is opaque too:
  \<open>'so\<close> for a serialization, \<open>'di\<close> for a deserialization.
\<close>

record ('col, 'wb, 'rb, 'fs, 'so, 'di) TextSerialization =
  serializeText :: "'col \<Rightarrow> size_t \<Rightarrow> 'wb \<Rightarrow> 'fs \<Rightarrow> 'so"
  serializeTextEscaped :: "'col \<Rightarrow> size_t \<Rightarrow> 'wb \<Rightarrow> 'fs \<Rightarrow> 'so"
  deserializeTextEscaped :: "'col \<Rightarrow> 'rb \<Rightarrow> 'fs \<Rightarrow> 'di"
  serializeTextQuoted :: "'col \<Rightarrow> size_t \<Rightarrow> 'wb \<Rightarrow> 'fs \<Rightarrow> 'so"
  deserializeTextQuoted :: "'col \<Rightarrow> 'rb \<Rightarrow> 'fs \<Rightarrow> 'di"
  serializeTextCSV :: "'col \<Rightarrow> size_t \<Rightarrow> 'wb \<Rightarrow> 'fs \<Rightarrow> 'so"
  deserializeTextCSV :: "'col \<Rightarrow> 'rb \<Rightarrow> 'fs \<Rightarrow> 'di"
  serializeTextJSON :: "'col \<Rightarrow> size_t \<Rightarrow> 'wb \<Rightarrow> 'fs \<Rightarrow> 'so"
  deserializeTextJSON :: "'col \<Rightarrow> 'rb \<Rightarrow> 'fs \<Rightarrow> 'di"
  serializeTextXML :: "'col \<Rightarrow> size_t \<Rightarrow> 'wb \<Rightarrow> 'fs \<Rightarrow> 'so"

subsection \<open>Domains\<close>

text \<open>
  Modelled from the spec: the classes \<^verbatim>\<open>IDataTypeDomain\<close> and
  \<^verbatim>\<open>IDataTypeDomainCustomSerialization\<close> (DataTypes/IDataTypeDomain.h) are not part of the source
  file. By the spec's data model a domain has a display name, optionally a custom
  text-serialization capability, and domains form a singly-linked chain. Whether a domain has
  the capability is its class, fixed when it is made.
\<close>

datatype 'c IDataTypeDomain =
  Domain (display_name: string) (custom_serialization: "'c option") (delegate: "'c IDataTypeDomain option")

text \<open>
  Modelled from the spec: \<^verbatim>\<open>IDataTypeDomain::appendDomain\<close> is not part of the source file. By the
  spec the domain that is asked appends the new domain after itself, extending the chain, and no
  domain is removed or replaced: the new domain goes behind the last link.
\<close>

fun domain_appendDomain :: "'c IDataTypeDomain \<Rightarrow> 'c IDataTypeDomain \<Rightarrow> 'c IDataTypeDomain" where
  "domain_appendDomain (Domain n c None) new_domain = Domain n c (Some new_domain)"
| "domain_appendDomain (Domain n c (Some d)) new_domain =
     Domain n c (Some (domain_appendDomain d new_domain))"

text \<open>The domains reachable from a domain, in link order: display name and capability.\<close>

fun domain_chain :: "'c IDataTypeDomain \<Rightarrow> (string \<times> 'c option) list" where
  "domain_chain (Domain n c None) = [(n, c)]"
| "domain_chain (Domain n c (Some d)) = (n, c) # domain_chain d"

text \<open>
  Modelled from the spec: \<^verbatim>\<open>IDataTypeDomain::getName\<close> is not part of the source file. By the
  spec the head of a chain is the most recently appended domain, and the name is the head's: a
  domain with nothing linked behind it gives its display name, and a domain with a successor
  gives the name its successor gives.
\<close>

fun IDataTypeDomain_getName :: "'c IDataTypeDomain \<Rightarrow> string" where
  "IDataTypeDomain_getName (Domain n c None) = n"
| "IDataTypeDomain_getName (Domain n c (Some d)) = IDataTypeDomain_getName d"

text \<open>
  The definitions below that call \<^verbatim>\<open>domain->getName()\<close> take the callee as the parameter
  \<open>domain_getName\<close>, a function of the whole domain (its links included), so that what is
  proved of them holds for every such function; \<open>IDataTypeDomain_getName\<close> is the one the
  spec describes.
\<close>

subsection \<open>The logical type\<close>

text \<open>
  An \<^verbatim>\<open>IDataType\<close>: its own virtual text methods, the virtual \<^verbatim>\<open>getFamilyName\<close>, and the
  member \<^verbatim>\<open>mutable DataTypeDomainPtr domain\<close> (\<open>None\<close> is \<^verbatim>\<open>nullptr\<close>, the value the constructor
  gives it).
\<close>

record ('col, 'wb, 'rb, 'fs, 'so, 'di) IDataType =
  "('col, 'wb, 'rb, 'fs, 'so, 'di) TextSerialization" +
  getFamilyName :: string
  domain :: "('col, 'wb, 'rb, 'fs, 'so, 'di) TextSerialization IDataTypeDomain option"

definition doGetName :: "('col, 'wb, 'rb, 'fs, 'so, 'di) IDataType \<Rightarrow> string" where
  "doGetName t = getFamilyName t"

definition getName ::
    "(('col, 'wb, 'rb, 'fs, 'so, 'di) TextSerialization IDataTypeDomain \<Rightarrow> string)
     \<Rightarrow> ('col, 'wb, 'rb, 'fs, 'so, 'di) IDataType \<Rightarrow> string" where
  "getName domain_getName t =
     (case domain t of
        Some d \<Rightarrow> domain_getName d
      | None \<Rightarrow> doGetName t)"

text \<open>\<^verbatim>\<open>appendDomain\<close> mutates the member \<open>domain\<close>; the model returns the type after the call.\<close>

definition appendDomain ::
    "('col, 'wb, 'rb, 'fs, 'so, 'di) IDataType
     \<Rightarrow> ('col, 'wb, 'rb, 'fs, 'so, 'di) TextSerialization IDataTypeDomain
     \<Rightarrow> ('col, 'wb, 'rb, 'fs, 'so, 'di) IDataType" where
  "appendDomain t new_domain =
     (case domain t of
        None \<Rightarrow> t\<lparr>domain := Some new_domain\<rparr>
      | Some d \<Rightarrow> t\<lparr>domain := Some (domain_appendDomain d new_domain)\<rparr>)"

text \<open>The chain a type holds: empty when no domain is attached.\<close>

definition attached_chain ::
    "('col, 'wb, 'rb, 'fs, 'so, 'di) IDataType
     \<Rightarrow> (string \<times> ('col, 'wb, 'rb, 'fs, 'so, 'di) TextSerialization option) list" where
  "attached_chain t = (case domain t of None \<Rightarrow> [] | Some d \<Rightarrow> domain_chain d)"

subsection \<open>Text serialization through the domain\<close>

text \<open>
  \<^verbatim>\<open>dynamic_cast<const IDataTypeDomainCustomSerialization *>(domain.get())\<close>: null for a null
  pointer and for a domain without the capability.
\<close>

definition dynamic_cast_CustomSerialization :: "'c IDataTypeDomain option \<Rightarrow> 'c option" where
  "dynamic_cast_CustomSerialization d =
     (case d of None \<Rightarrow> None | Some p \<Rightarrow> custom_serialization p)"

definition serializeAsTextEscaped ::
    "('col, 'wb, 'rb, 'fs, 'so, 'di) IDataType \<Rightarrow> 'col \<Rightarrow> size_t \<Rightarrow> 'wb \<Rightarrow> 'fs \<Rightarrow> 'so" where
  "serializeAsTextEscaped t column row_num ostr settings =
     (case dynamic_cast_CustomSerialization (domain t) of
        Some ser_domain \<Rightarrow> serializeTextEscaped ser_domain column row_num ostr settings
      | None \<Rightarrow> serializeTextEscaped t column row_num ostr settings)"

definition deserializeAsTextEscaped ::
    "('col, 'wb, 'rb, 'fs, 'so, 'di) IDataType \<Rightarrow> 'col \<Rightarrow> 'rb \<Rightarrow> 'fs \<Rightarrow> 'di" where
  "deserializeAsTextEscaped t column istr settings =
     (case dynamic_cast_CustomSerialization (domain t) of
        Some ser_domain \<Rightarrow> deserializeTextEscaped ser_domain column istr settings
      | None \<Rightarrow> deserializeTextEscaped t column istr settings)"

definition serializeAsTextQuoted ::
    "('col, 'wb, 'rb, 'fs, 'so, 'di) IDataType \<Rightarrow> 'col \<Rightarrow> size_t \<Rightarrow> 'wb \<Rightarrow> 'fs \<Rightarrow> 'so" where
  "serializeAsTextQuoted t column row_num ostr settings =
     (case dynamic_cast_CustomSerialization (domain t) of
        Some ser_domain \<Rightarrow> serializeTextQuoted ser_domain column row_num ostr settings
      | None \<Rightarrow> serializeTextQuoted t column row_num ostr settings)"

definition deserializeAsTextQuoted ::
    "('col, 'wb, 'rb, 'fs, 'so, 'di) IDataType \<Rightarrow> 'col \<Rightarrow> 'rb \<Rightarrow> 'fs \<Rightarrow> 'di" where
  "deserializeAsTextQuoted t column istr settings =
     (case dynamic_cast_CustomSerialization (domain t) of
        Some ser_domain \<Rightarrow> deserializeTextQuoted ser_domain column istr settings
      | None \<Rightarrow> deserializeTextQuoted t column istr settings)"

definition serializeAsTextCSV ::
    "('col, 'wb, 'rb, 'fs, 'so, 'di) IDataType \<Rightarrow> 'col \<Rightarrow> size_t \<Rightarrow> 'wb \<Rightarrow> 'fs \<Rightarrow> 'so" where
  "serializeAsTextCSV t column row_num ostr settings =
     (case dynamic_cast_CustomSerialization (domain t) of
        Some ser_domain \<Rightarrow> serializeTextCSV ser_domain column row_num ostr settings
      | None \<Rightarrow> serializeTextCSV t column row_num ostr settings)"

definition deserializeAsTextCSV ::
    "('col, 'wb, 'rb, 'fs, 'so, 'di) IDataType \<Rightarrow> 'col \<Rightarrow> 'rb \<Rightarrow> 'fs \<Rightarrow> 'di" where
  "deserializeAsTextCSV t column istr settings =
     (case dynamic_cast_CustomSerialization (domain t) of
        Some ser_domain \<Rightarrow> deserializeTextCSV ser_domain column istr settings
      | None \<Rightarrow> deserializeTextCSV t column istr settings)"

definition serializeAsText ::
    "('col, 'wb, 'rb, 'fs, 'so, 'di) IDataType \<Rightarrow> 'col \<Rightarrow> size_t \<Rightarrow> 'wb \<Rightarrow> 'fs \<Rightarrow> 'so" where
  "serializeAsText t column row_num ostr settings =
     (case dynamic_cast_CustomSerialization (domain t) of
        Some ser_domain \<Rightarrow> serializeText ser_domain column row_num ostr settings
      | None \<Rightarrow> serializeText t column row_num ostr settings)"

definition serializeAsTextJSON ::
    "('col, 'wb, 'rb, 'fs, 'so, 'di) IDataType \<Rightarrow> 'col \<Rightarrow> size_t \<Rightarrow> 'wb \<Rightarrow> 'fs \<Rightarrow> 'so" where
  "serializeAsTextJSON t column row_num ostr settings =
     (case dynamic_cast_CustomSerialization (domain t) of
        Some ser_domain \<Rightarrow> serializeTextJSON ser_domain column row_num ostr settings
      | None \<Rightarrow> serializeTextJSON t column row_num ostr settings)"

definition deserializeAsTextJSON ::
    "('col, 'wb, 'rb, 'fs, 'so, 'di) IDataType \<Rightarrow> 'col \<Rightarrow> 'rb \<Rightarrow> 'fs \<Rightarrow> 'di" where
  "deserializeAsTextJSON t column istr settings =
     (case dynamic_cast_CustomSerialization (domain t) of
        Some ser_domain \<Rightarrow> deserializeTextJSON ser_domain column istr settings
      | None \<Rightarrow> deserializeTextJSON t column istr settings)"

definition serializeAsTextXML ::
    "('col, 'wb, 'rb, 'fs, 'so, 'di) IDataType \<Rightarrow> 'col \<Rightarrow> size_t \<Rightarrow> 'wb \<Rightarrow> 'fs \<Rightarrow> 'so" where
  "serializeAsTextXML t column row_num ostr settings =
     (case dynamic_cast_CustomSerialization (domain t) of
        Some ser_domain \<Rightarrow> serializeTextXML ser_domain column row_num ostr settings
      | None \<Rightarrow> serializeTextXML t column row_num ostr settings)"

text \<open>
  The text operations the source file defines, in its order, each with its format family and
  its direction.
\<close>

datatype text_format = Escaped | Quoted | CSV | Plain | JSON | XML

datatype direction = Serialize | Deserialize

datatype AsText_operation =
    SerializeAsTextEscaped | DeserializeAsTextEscaped
  | SerializeAsTextQuoted | DeserializeAsTextQuoted
  | SerializeAsTextCSV | DeserializeAsTextCSV
  | SerializeAsText
  | SerializeAsTextJSON | DeserializeAsTextJSON
  | SerializeAsTextXML

fun operation_signature :: "AsText_operation \<Rightarrow> text_format \<times> direction" where
  "operation_signature SerializeAsTextEscaped = (Escaped, Serialize)"
| "operation_signature DeserializeAsTextEscaped = (Escaped, Deserialize)"
| "operation_signature SerializeAsTextQuoted = (Quoted, Serialize)"
| "operation_signature DeserializeAsTextQuoted = (Quoted, Deserialize)"
| "operation_signature SerializeAsTextCSV = (CSV, Serialize)"
| "operation_signature DeserializeAsTextCSV = (CSV, Deserialize)"
| "operation_signature SerializeAsText = (Plain, Serialize)"
| "operation_signature SerializeAsTextJSON = (JSON, Serialize)"
| "operation_signature DeserializeAsTextJSON = (JSON, Deserialize)"
| "operation_signature SerializeAsTextXML = (XML, Serialize)"

definition AsText_operations :: "AsText_operation list" where
  "AsText_operations =
     [SerializeAsTextEscaped, DeserializeAsTextEscaped,
      SerializeAsTextQuoted, DeserializeAsTextQuoted,
      SerializeAsTextCSV, DeserializeAsTextCSV,
      SerializeAsText,
      SerializeAsTextJSON, DeserializeAsTextJSON,
      SerializeAsTextXML]"

definition has_operation :: "text_format \<Rightarrow> direction \<Rightarrow> bool" where
  "has_operation f d = ((f, d) \<in> set (map operation_signature AsText_operations))"

subsection \<open>Operations that only throw\<close>

text \<open>
  Each returns what it threw together with everything it could have changed: the type (its
  member \<open>domain\<close> is mutable) and the arguments passed by non-const reference.
\<close>

definition promoteNumericType ::
    "(('col, 'wb, 'rb, 'fs, 'so, 'di) TextSerialization IDataTypeDomain \<Rightarrow> string)
     \<Rightarrow> ('col, 'wb, 'rb, 'fs, 'so, 'di) IDataType
     \<Rightarrow> (exception + 'ptr) \<times> ('col, 'wb, 'rb, 'fs, 'so, 'di) IDataType" where
  "promoteNumericType domain_getName t =
     (Inl (Exception (''Data type '' @ getName domain_getName t @ '' can'' @ [CHR 0x27] @ ''t be promoted.'')
        DATA_TYPE_CANNOT_BE_PROMOTED), t)"

definition serializeBinaryBulk ::
    "(('col, 'wb, 'rb, 'fs, 'so, 'di) TextSerialization IDataTypeDomain \<Rightarrow> string)
     \<Rightarrow> ('col, 'wb, 'rb, 'fs, 'so, 'di) IDataType \<Rightarrow> 'col \<Rightarrow> 'wb \<Rightarrow> size_t \<Rightarrow> size_t
     \<Rightarrow> (exception + unit) \<times> ('col, 'wb, 'rb, 'fs, 'so, 'di) IDataType \<times> 'wb" where
  "serializeBinaryBulk domain_getName t column ostr offset limit =
     (Inl (Exception (''Data type '' @ getName domain_getName t @ '' must be serialized with multiple streams'')
        MULTIPLE_STREAMS_REQUIRED), t, ostr)"

definition deserializeBinaryBulk ::
    "(('col, 'wb, 'rb, 'fs, 'so, 'di) TextSerialization IDataTypeDomain \<Rightarrow> string)
     \<Rightarrow> ('col, 'wb, 'rb, 'fs, 'so, 'di) IDataType \<Rightarrow> 'col \<Rightarrow> 'rb \<Rightarrow> size_t \<Rightarrow> real
     \<Rightarrow> (exception + unit) \<times> ('col, 'wb, 'rb, 'fs, 'so, 'di) IDataType \<times> 'col \<times> 'rb" where
  "deserializeBinaryBulk domain_getName t column istr limit avg_value_size_hint =
     (Inl (Exception (''Data type '' @ getName domain_getName t @ '' must be deserialized with multiple streams'')
        MULTIPLE_STREAMS_REQUIRED), t, column, istr)"

definition getSizeOfValueInMemory ::
    "(('col, 'wb, 'rb, 'fs, 'so, 'di) TextSerialization IDataTypeDomain \<Rightarrow> string)
     \<Rightarrow> ('col, 'wb, 'rb, 'fs, 'so, 'di) IDataType
     \<Rightarrow> (exception + size_t) \<times> ('col, 'wb, 'rb, 'fs, 'so, 'di) IDataType" where
  "getSizeOfValueInMemory domain_getName t =
     (Inl (Exception (''Value of type '' @ getName domain_getName t @ '' in memory is not of fixed size.'')
        LOGICAL_ERROR), t)"

subsection \<open>The size-hint estimator\<close>

text \<open>
  What \<^verbatim>\<open>updateAvgValueSizeHint\<close> reads of an \<^verbatim>\<open>IColumn\<close>: \<^verbatim>\<open>column.size()\<close> and
  \<^verbatim>\<open>column.byteSize()\<close>.
\<close>

record IColumn =
  col_size :: size_t
  col_byteSize :: size_t

text \<open>
  A \<^verbatim>\<open>double\<close> is modelled by the real number it denotes (infinities and NaN are left out).
  Every arithmetic operation of the source is the exact operation followed by the rounding
  \<open>rnd\<close> to a \<^verbatim>\<open>double\<close>, which is a parameter: nothing is assumed of it unless a theorem says
  so, and \<open>\<lambda>x. x\<close> is the arithmetic on values where no rounding happens. Comparisons and
  \<^verbatim>\<open>std::min\<close> do not round; the literals \<^verbatim>\<open>1024.\<close>, \<^verbatim>\<open>2\<close>, \<^verbatim>\<open>3\<close>, \<^verbatim>\<open>4\<close> are exact.
\<close>

definition to_double :: "(real \<Rightarrow> real) \<Rightarrow> size_t \<Rightarrow> real" where
  "to_double rnd x = rnd (real (unat x))"

text \<open>\<^verbatim>\<open>std::min(a, b)\<close> is \<^verbatim>\<open>(b < a) ? b : a\<close>.\<close>

definition std_min :: "real \<Rightarrow> real \<Rightarrow> real" where
  "std_min a b = (if b < a then b else a)"

text \<open>\<^verbatim>\<open>static_cast<double>(column.byteSize()) / column_size\<close>\<close>

definition current_avg_value_size :: "(real \<Rightarrow> real) \<Rightarrow> IColumn \<Rightarrow> real" where
  "current_avg_value_size rnd column =
     rnd (to_double rnd (col_byteSize column) / to_double rnd (col_size column))"

text \<open>The hint is passed by reference and updated in place: the model returns its new value.\<close>

definition updateAvgValueSizeHint :: "(real \<Rightarrow> real) \<Rightarrow> IColumn \<Rightarrow> real \<Rightarrow> real" where
  "updateAvgValueSizeHint rnd column avg_value_size_hint =
     (let column_size = col_size column
      in if column_size > 10 then
           (let avg = current_avg_value_size rnd column
            in if avg > avg_value_size_hint then std_min 1024 avg
               else if rnd (avg * 2) < avg_value_size_hint then
                 rnd (rnd (avg + rnd (avg_value_size_hint * 3)) / 4)
               else avg_value_size_hint)
         else avg_value_size_hint)"

text \<open>
  The update rule as the specification words it, for a batch of \<open>n\<close> rows and \<open>b\<close> bytes and
  the prior hint \<open>h\<close>, in the same arithmetic.
\<close>

definition spec_updated_hint :: "(real \<Rightarrow> real) \<Rightarrow> nat \<Rightarrow> nat \<Rightarrow> real \<Rightarrow> real" where
  "spec_updated_hint rnd n b h =
     (if n \<le> 10 then h
      else let avg = rnd (rnd (real b) / rnd (real n))
           in if avg > h then min avg 1024
              else if rnd (avg * 2) < h then rnd (rnd (avg + rnd (h * 3)) / 4)
              else h)"

text \<open>The hint after a sequence of batches, first batch first.\<close>

definition feed_batches :: "(real \<Rightarrow> real) \<Rightarrow> IColumn list \<Rightarrow> real \<Rightarrow> real" where
  "feed_batches rnd columns h = foldl (\<lambda>hint column. updateAvgValueSizeHint rnd column hint) h columns"

subsection \<open>Test doubles\<close>

text \<open>
  A set of text methods that records each call: who was called, which method, and the
  arguments it received. Columns and buffers are strings here, the settings are \<open>()\<close>.
  \<open>recording_type family\<close> is a type of that family with these methods and no domain.
\<close>

type_synonym recorded_serialize = "string \<times> string \<times> string \<times> size_t \<times> string \<times> unit"
type_synonym recorded_deserialize = "string \<times> string \<times> string \<times> string \<times> unit"

definition recording ::
    "string \<Rightarrow> (string, string, string, unit, recorded_serialize, recorded_deserialize) TextSerialization" where
  "recording who =
     \<lparr>serializeText = (\<lambda>column row_num ostr settings. (who, ''serializeText'', column, row_num, ostr, settings)),
      serializeTextEscaped = (\<lambda>column row_num ostr settings. (who, ''serializeTextEscaped'', column, row_num, ostr, settings)),
      deserializeTextEscaped = (\<lambda>column istr settings. (who, ''deserializeTextEscaped'', column, istr, settings)),
      serializeTextQuoted = (\<lambda>column row_num ostr settings. (who, ''serializeTextQuoted'', column, row_num, ostr, settings)),
      deserializeTextQuoted = (\<lambda>column istr settings. (who, ''deserializeTextQuoted'', column, istr, settings)),
      serializeTextCSV = (\<lambda>column row_num ostr settings. (who, ''serializeTextCSV'', column, row_num, ostr, settings)),
      deserializeTextCSV = (\<lambda>column istr settings. (who, ''deserializeTextCSV'', column, istr, settings)),
      serializeTextJSON = (\<lambda>column row_num ostr settings. (who, ''serializeTextJSON'', column, row_num, ostr, settings)),
      deserializeTextJSON = (\<lambda>column istr settings. (who, ''deserializeTextJSON'', column, istr, settings)),
      serializeTextXML = (\<lambda>column row_num ostr settings. (who, ''serializeTextXML'', column, row_num, ostr, settings))\<rparr>"

definition recording_type ::
    "string \<Rightarrow> (string, string, string, unit, recorded_serialize, recorded_deserialize) IDataType" where
  "recording_type family = TextSerialization.extend (recording family) (IDataType.fields family None)"

lemmas fixture_defs = recording_type_def recording_def TextSerialization.defs IDataType.defs

lemmas AsText_defs =
  serializeAsTextEscaped_def deserializeAsTextEscaped_def
  serializeAsTextQuoted_def deserializeAsTextQuoted_def
  serializeAsTextCSV_def deserializeAsTextCSV_def
  serializeAsText_def
  serializeAsTextJSON_def deserializeAsTextJSON_def
  serializeAsTextXML_def

subsection \<open>Stream names: lemmas\<close>

lemma walk_suffixes_positional:
  "walk_suffixes esc level path =
     concat (map (\<lambda>i. marker_suffix esc (level + array_level_at path i) (path ! i)) [0..<length path])"
proof (induction path arbitrary: level)
  case Nil
  show ?case by simp
next
  case (Cons e es)
  have shift: "\<And>i. array_level_at (e # es) (Suc i)
      = (if type e = ArrayElements then 1 else 0) + array_level_at es i"
    by (simp add: array_level_at_def)
  have zero: "array_level_at (e # es) 0 = 0"
    by (simp add: array_level_at_def)
  show ?case
    unfolding walk_suffixes.simps Cons.IH
    by (simp add: map_upt_Suc shift zero del: upt_Suc marker_suffix.simps)
qed

lemma path_suffixes_walk: "path_suffixes esc path = walk_suffixes esc 0 path"
  by (simp add: path_suffixes_def walk_suffixes_positional)

lemma unat_level: "l < 2 ^ 64 \<Longrightarrow> unat (of_nat l :: size_t) = l"
  by (simp add: unat_of_nat)

lemma stream_name_step_suffix:
  assumes "l < 2 ^ 64"
  shows "stream_name_step esc (s, of_nat l) e
     = (s @ marker_suffix esc l e, of_nat (if type e = ArrayElements then Suc l else l))"
  using assms by (cases "type e") (simp_all add: toString_def unat_level)

lemma foldl_stream_name_step:
  "l + length path < 2 ^ 64 \<Longrightarrow>
   fst (foldl (stream_name_step esc) (s, of_nat l) path) = s @ walk_suffixes esc l path"
proof (induction path arbitrary: s l)
  case Nil
  show ?case by simp
next
  case (Cons e es)
  from Cons.prems have l: "l < 2 ^ 64" by simp
  from Cons.prems have next_level: "(if type e = ArrayElements then Suc l else l) + length es < 2 ^ 64"
    by simp
  show ?case
    using Cons.IH [OF next_level]
    by (simp add: stream_name_step_suffix [OF l] del: stream_name_step.simps marker_suffix.simps)
qed

lemma getFileNameForStream_base_suffixes:
  assumes "length path < 2 ^ 64"
  shows "getFileNameForStream esc ext column_name path
     = esc (if is_sizes_of_nested_type ext column_name path then ext column_name else column_name)
       @ path_suffixes esc path"
proof -
  have "fst (foldl (stream_name_step esc) (s, of_nat 0) path) = s @ walk_suffixes esc 0 path" for s
    using assms by (intro foldl_stream_name_step) simp
  then show ?thesis
    by (simp add: getFileNameForStream_def path_suffixes_walk Let_def)
qed

subsection \<open>Stream names: the claims\<close>

text \<open>
  Claim C1. For every column name and every substream path (a vector, so shorter than \<open>2 ^ 64\<close>),
  \<open>getFileNameForStream\<close> returns the escaped base identifier followed, in path order, by the
  suffix of each marker at the array level reached there: \<open>NullMap\<close> gives \<^verbatim>\<open>.null\<close>,
  \<open>ArraySizes\<close> gives \<^verbatim>\<open>.size\<close> and the current level, \<open>ArrayElements\<close> gives nothing and raises
  the level by one for the markers after it, \<open>TupleElement\<close> gives \<^verbatim>\<open>%2E\<close> and the escaped field
  name, \<open>DictionaryKeys\<close> gives \<^verbatim>\<open>.dict\<close>. An empty path yields the bare escaped name, and the
  name \<^verbatim>\<open>x\<close> (which escaping leaves as it is) with the path \<open>[ArrayElements, ArraySizes]\<close>
  yields \<^verbatim>\<open>x.size1\<close>.
\<close>

theorem getFileNameForStream_grammar:
  "(length path < 2 ^ 64 \<longrightarrow>
      getFileNameForStream esc ext column_name path
        = esc (if is_sizes_of_nested_type ext column_name path then ext column_name else column_name)
          @ path_suffixes esc path)
   \<and> getFileNameForStream esc ext column_name [] = esc column_name
   \<and> (esc ''x'' = ''x'' \<longrightarrow>
        getFileNameForStream esc ext ''x''
          [\<lparr>type = ArrayElements, tuple_element_name = a\<rparr>, \<lparr>type = ArraySizes, tuple_element_name = b\<rparr>]
        = ''x.size1'')"
proof (intro conjI impI)
  assume "length path < 2 ^ 64"
  then show "getFileNameForStream esc ext column_name path
        = esc (if is_sizes_of_nested_type ext column_name path then ext column_name else column_name)
          @ path_suffixes esc path"
    by (rule getFileNameForStream_base_suffixes)
next
  show "getFileNameForStream esc ext column_name [] = esc column_name"
    by (simp add: getFileNameForStream_def is_sizes_of_nested_type_def)
next
  assume "esc ''x'' = ''x''"
  then show "getFileNameForStream esc ext ''x''
          [\<lparr>type = ArrayElements, tuple_element_name = a\<rparr>, \<lparr>type = ArraySizes, tuple_element_name = b\<rparr>]
        = ''x.size1''"
    by (simp add: getFileNameForStream_def is_sizes_of_nested_type_def toString_def
        decimal.simps digit_char_def)
qed


text \<open>The grammar at a path that uses every kind of marker, and at the golden case.\<close>

theorem getFileNameForStream_grammar_witness:
  "length [\<lparr>type = ArrayElements, tuple_element_name = ''''\<rparr>,
           \<lparr>type = TupleElement, tuple_element_name = ''a''\<rparr>,
           \<lparr>type = NullMap, tuple_element_name = ''''\<rparr>,
           \<lparr>type = ArrayElements, tuple_element_name = ''''\<rparr>,
           \<lparr>type = ArraySizes, tuple_element_name = ''''\<rparr>,
           \<lparr>type = DictionaryKeys, tuple_element_name = ''''\<rparr>] < (2::nat) ^ 64
   \<and> getFileNameForStream (\<lambda>s. s) (\<lambda>s. s) ''x''
         [\<lparr>type = ArrayElements, tuple_element_name = ''''\<rparr>,
          \<lparr>type = TupleElement, tuple_element_name = ''a''\<rparr>,
          \<lparr>type = NullMap, tuple_element_name = ''''\<rparr>,
          \<lparr>type = ArrayElements, tuple_element_name = ''''\<rparr>,
          \<lparr>type = ArraySizes, tuple_element_name = ''''\<rparr>,
          \<lparr>type = DictionaryKeys, tuple_element_name = ''''\<rparr>]
       = ''x%2Ea.null.size2.dict''
   \<and> getFileNameForStream (\<lambda>s. s) (\<lambda>s. s) ''x''
         [\<lparr>type = ArrayElements, tuple_element_name = ''''\<rparr>,
          \<lparr>type = ArraySizes, tuple_element_name = ''''\<rparr>]
       = ''x.size1''"
  using getFileNameForStream_grammar [of
      "[\<lparr>type = ArrayElements, tuple_element_name = ''''\<rparr>,
        \<lparr>type = TupleElement, tuple_element_name = ''a''\<rparr>,
        \<lparr>type = NullMap, tuple_element_name = ''''\<rparr>,
        \<lparr>type = ArrayElements, tuple_element_name = ''''\<rparr>,
        \<lparr>type = ArraySizes, tuple_element_name = ''''\<rparr>,
        \<lparr>type = DictionaryKeys, tuple_element_name = ''''\<rparr>]"
      "\<lambda>s. s" "\<lambda>s. s" "''x''" "''''" "''''"]
  by (simp add: is_sizes_of_nested_type_def path_suffixes_def array_level_at_def
      decimal.simps digit_char_def upt_conv_Cons)


text \<open>
  Claim C2. \<open>getFileNameForStream\<close> takes the nested table name as the base of the stream name
  exactly when the path has length 1, its single marker is \<open>ArraySizes\<close> and the nested table
  name extracted from the column name differs from the column name; the result is then the
  escaped table name followed by \<^verbatim>\<open>.size0\<close>. In every other case the base is the column name
  itself. The name \<^verbatim>\<open>x\<close> of the nested table \<^verbatim>\<open>n\<close> with the path \<open>[ArraySizes]\<close> yields
  \<^verbatim>\<open>n.size0\<close>.
\<close>

theorem getFileNameForStream_base:
  "(length path = 1 \<and> type (hd path) = ArraySizes \<and> ext column_name \<noteq> column_name \<longrightarrow>
      getFileNameForStream esc ext column_name path = esc (ext column_name) @ ''.size0'')
   \<and> (length path < 2 ^ 64
        \<and> \<not> (length path = 1 \<and> type (hd path) = ArraySizes \<and> ext column_name \<noteq> column_name) \<longrightarrow>
      getFileNameForStream esc ext column_name path = esc column_name @ path_suffixes esc path)
   \<and> (ext ''x'' = ''n'' \<and> esc ''n'' = ''n'' \<longrightarrow>
      getFileNameForStream esc ext ''x'' [\<lparr>type = ArraySizes, tuple_element_name = a\<rparr>] = ''n.size0'')"
proof (intro conjI impI)
  assume shared: "length path = 1 \<and> type (hd path) = ArraySizes \<and> ext column_name \<noteq> column_name"
  then obtain e where path: "path = [e]"
    by (cases path) auto
  with shared show "getFileNameForStream esc ext column_name path = esc (ext column_name) @ ''.size0''"
    by (simp add: getFileNameForStream_def is_sizes_of_nested_type_def toString_def
        decimal.simps digit_char_def)
next
  assume own: "length path < 2 ^ 64
        \<and> \<not> (length path = 1 \<and> type (hd path) = ArraySizes \<and> ext column_name \<noteq> column_name)"
  then have "\<not> is_sizes_of_nested_type ext column_name path"
    by (cases path) (auto simp: is_sizes_of_nested_type_def)
  with own show "getFileNameForStream esc ext column_name path = esc column_name @ path_suffixes esc path"
    by (simp add: getFileNameForStream_base_suffixes)
next
  assume "ext ''x'' = ''n'' \<and> esc ''n'' = ''n''"
  then show "getFileNameForStream esc ext ''x'' [\<lparr>type = ArraySizes, tuple_element_name = a\<rparr>] = ''n.size0''"
    by (simp add: getFileNameForStream_def is_sizes_of_nested_type_def toString_def
        decimal.simps digit_char_def)
qed


text \<open>
  A column of a nested table, a column that is its own table, and a column of a nested table
  at a longer path.
\<close>

theorem getFileNameForStream_base_witness:
  "getFileNameForStream (\<lambda>s. s) (\<lambda>c. if c = ''x'' then ''n'' else c) ''x''
       [\<lparr>type = ArraySizes, tuple_element_name = ''''\<rparr>] = ''n.size0''
   \<and> getFileNameForStream (\<lambda>s. s) (\<lambda>c. if c = ''x'' then ''n'' else c) ''y''
       [\<lparr>type = ArraySizes, tuple_element_name = ''''\<rparr>] = ''y.size0''
   \<and> getFileNameForStream (\<lambda>s. s) (\<lambda>c. if c = ''x'' then ''n'' else c) ''x''
       [\<lparr>type = ArrayElements, tuple_element_name = ''''\<rparr>,
        \<lparr>type = ArraySizes, tuple_element_name = ''''\<rparr>] = ''x.size1''"
  using
    getFileNameForStream_base [of "[\<lparr>type = ArraySizes, tuple_element_name = ''''\<rparr>]"
      "\<lambda>c. if c = ''x'' then ''n'' else c" "''x''" "\<lambda>s. s" "''''"]
    getFileNameForStream_base [of "[\<lparr>type = ArraySizes, tuple_element_name = ''''\<rparr>]"
      "\<lambda>c. if c = ''x'' then ''n'' else c" "''y''" "\<lambda>s. s" "''''"]
    getFileNameForStream_base [of "[\<lparr>type = ArrayElements, tuple_element_name = ''''\<rparr>,
        \<lparr>type = ArraySizes, tuple_element_name = ''''\<rparr>]"
      "\<lambda>c. if c = ''x'' then ''n'' else c" "''x''" "\<lambda>s. s" "''''"]
  by (simp add: path_suffixes_def array_level_at_def decimal.simps digit_char_def upt_conv_Cons)

subsection \<open>Names and domains: lemmas and claims\<close>

text \<open>
  Claim C5. \<open>getName\<close> returns the attached domain's name when a domain is attached, and
  the physical family name when none is.
\<close>

theorem getName_domain_or_family:
  "(domain t = Some d \<longrightarrow> getName domain_getName t = domain_getName d)
   \<and> (domain t = None \<longrightarrow> getName domain_getName t = getFamilyName t)"
  by (simp add: getName_def doGetName_def)

text \<open>
  A type of family \<^verbatim>\<open>UInt32\<close> with the domain \<^verbatim>\<open>IPv4\<close> attached, and the same type without
  a domain; a domain's name is its display name here.
\<close>

theorem getName_domain_or_family_witness:
  "getName display_name
     (appendDomain (recording_type ''UInt32'')
        (Domain ''IPv4'' None None)) = ''IPv4''
   \<and> getName display_name (recording_type ''UInt32'')
       = ''UInt32''"
  using
    getName_domain_or_family [of
      "appendDomain (recording_type ''UInt32'')
        (Domain ''IPv4'' None None)"
      "Domain ''IPv4'' None None" display_name]
    getName_domain_or_family [of
      "recording_type ''UInt32''"
      "Domain ''IPv4'' None None" display_name]
  by (simp add: appendDomain_def fixture_defs)

lemma domain_chain_appendDomain:
  "domain_chain (domain_appendDomain h d) = domain_chain h @ domain_chain d"
  by (induction h d rule: domain_appendDomain.induct) simp_all

text \<open>
  Claim C6. \<open>appendDomain\<close> keeps the chain append-only: with no domain attached the new
  domain becomes the one the type holds; otherwise the attached domain is asked to append the
  new domain after itself; the chain after the call is the chain before it followed by the new
  domain's own chain, so no attached domain is removed or replaced; and nothing of the type but
  its member \<open>domain\<close> changes.
\<close>

theorem appendDomain_append_only:
  "(domain t = None \<longrightarrow> domain (appendDomain t d) = Some d)
   \<and> (domain t = Some h \<longrightarrow> domain (appendDomain t d) = Some (domain_appendDomain h d))
   \<and> attached_chain (appendDomain t d) = attached_chain t @ domain_chain d
   \<and> (appendDomain t d)\<lparr>domain := domain t\<rparr> = t"
  by (simp add: appendDomain_def attached_chain_def domain_chain_appendDomain split: option.splits)

text \<open>
  Attaching \<^verbatim>\<open>A\<close> to a type without a domain, then \<^verbatim>\<open>B\<close>.
\<close>

theorem appendDomain_append_only_witness:
  "domain (appendDomain (recording_type ''UInt32'')
        (Domain ''A'' None None)) = Some (Domain ''A'' None None)
   \<and> domain (appendDomain
        (appendDomain (recording_type ''UInt32'')
          (Domain ''A'' None None))
        (Domain ''B'' None None)) = Some (Domain ''A'' None (Some (Domain ''B'' None None)))
   \<and> attached_chain (appendDomain
        (appendDomain (recording_type ''UInt32'')
          (Domain ''A'' None None))
        (Domain ''B'' None None)) = [(''A'', None), (''B'', None)]"
  using
    appendDomain_append_only [of
      "recording_type ''UInt32''"
      "Domain ''A'' None None" "Domain ''A'' None None"]
    appendDomain_append_only [of
      "appendDomain (recording_type ''UInt32'')
          (Domain ''A'' None None)"
      "Domain ''B'' None None" "Domain ''A'' None None"]
  by (simp add: attached_chain_def fixture_defs)

lemma has_operation_Serialize: "has_operation f Serialize"
  by (cases f) (simp_all add: has_operation_def AsText_operations_def)

lemma has_operation_Deserialize:
  "has_operation f Deserialize = (f \<in> {Escaped, Quoted, CSV, JSON})"
  by (cases f) (simp_all add: has_operation_def AsText_operations_def)

text \<open>
  Claim C3, as the source has it. Each of the six text format families has a
  \<^verbatim>\<open>serializeAsText*\<close> operation; \<^verbatim>\<open>deserializeAsText*\<close> exists for the escaped, quoted, CSV and
  JSON families only. Each of the ten operations calls the method of the same format on the
  attached domain when that domain has the custom-serialization capability, and the type's own
  method otherwise (no domain, or a domain without the capability), with the column, the row
  number, the buffer and the settings it was given.
\<close>

theorem text_operations_delegate:
  "(\<forall>f. has_operation f Serialize)
   \<and> (\<forall>f. has_operation f Deserialize = (f \<in> {Escaped, Quoted, CSV, JSON}))
   \<and> (domain t = Some d \<and> custom_serialization d = Some ser_domain \<longrightarrow>
        serializeAsTextEscaped t column row_num ostr settings
          = serializeTextEscaped ser_domain column row_num ostr settings
      \<and> deserializeAsTextEscaped t column istr settings
          = deserializeTextEscaped ser_domain column istr settings
      \<and> serializeAsTextQuoted t column row_num ostr settings
          = serializeTextQuoted ser_domain column row_num ostr settings
      \<and> deserializeAsTextQuoted t column istr settings
          = deserializeTextQuoted ser_domain column istr settings
      \<and> serializeAsTextCSV t column row_num ostr settings
          = serializeTextCSV ser_domain column row_num ostr settings
      \<and> deserializeAsTextCSV t column istr settings
          = deserializeTextCSV ser_domain column istr settings
      \<and> serializeAsText t column row_num ostr settings
          = serializeText ser_domain column row_num ostr settings
      \<and> serializeAsTextJSON t column row_num ostr settings
          = serializeTextJSON ser_domain column row_num ostr settings
      \<and> deserializeAsTextJSON t column istr settings
          = deserializeTextJSON ser_domain column istr settings
      \<and> serializeAsTextXML t column row_num ostr settings
          = serializeTextXML ser_domain column row_num ostr settings)
   \<and> (domain t = None \<or> (domain t = Some d \<and> custom_serialization d = None) \<longrightarrow>
        serializeAsTextEscaped t column row_num ostr settings
          = serializeTextEscaped t column row_num ostr settings
      \<and> deserializeAsTextEscaped t column istr settings
          = deserializeTextEscaped t column istr settings
      \<and> serializeAsTextQuoted t column row_num ostr settings
          = serializeTextQuoted t column row_num ostr settings
      \<and> deserializeAsTextQuoted t column istr settings
          = deserializeTextQuoted t column istr settings
      \<and> serializeAsTextCSV t column row_num ostr settings
          = serializeTextCSV t column row_num ostr settings
      \<and> deserializeAsTextCSV t column istr settings
          = deserializeTextCSV t column istr settings
      \<and> serializeAsText t column row_num ostr settings
          = serializeText t column row_num ostr settings
      \<and> serializeAsTextJSON t column row_num ostr settings
          = serializeTextJSON t column row_num ostr settings
      \<and> deserializeAsTextJSON t column istr settings
          = deserializeTextJSON t column istr settings
      \<and> serializeAsTextXML t column row_num ostr settings
          = serializeTextXML t column row_num ostr settings)"
proof -
  have inventory: "(\<forall>f. has_operation f Serialize)
      \<and> (\<forall>f. has_operation f Deserialize = (f \<in> {Escaped, Quoted, CSV, JSON}))"
    using has_operation_Serialize has_operation_Deserialize by blast
  have custom: "
        serializeAsTextEscaped t column row_num ostr settings
          = serializeTextEscaped ser_domain column row_num ostr settings
      \<and> deserializeAsTextEscaped t column istr settings
          = deserializeTextEscaped ser_domain column istr settings
      \<and> serializeAsTextQuoted t column row_num ostr settings
          = serializeTextQuoted ser_domain column row_num ostr settings
      \<and> deserializeAsTextQuoted t column istr settings
          = deserializeTextQuoted ser_domain column istr settings
      \<and> serializeAsTextCSV t column row_num ostr settings
          = serializeTextCSV ser_domain column row_num ostr settings
      \<and> deserializeAsTextCSV t column istr settings
          = deserializeTextCSV ser_domain column istr settings
      \<and> serializeAsText t column row_num ostr settings
          = serializeText ser_domain column row_num ostr settings
      \<and> serializeAsTextJSON t column row_num ostr settings
          = serializeTextJSON ser_domain column row_num ostr settings
      \<and> deserializeAsTextJSON t column istr settings
          = deserializeTextJSON ser_domain column istr settings
      \<and> serializeAsTextXML t column row_num ostr settings
          = serializeTextXML ser_domain column row_num ostr settings"
    if "domain t = Some d \<and> custom_serialization d = Some ser_domain"
  proof -
    from that have cast: "dynamic_cast_CustomSerialization (domain t) = Some ser_domain"
      by (simp add: dynamic_cast_CustomSerialization_def)
    show ?thesis
      unfolding AsText_defs cast by simp
  qed
  have own: "
        serializeAsTextEscaped t column row_num ostr settings
          = serializeTextEscaped t column row_num ostr settings
      \<and> deserializeAsTextEscaped t column istr settings
          = deserializeTextEscaped t column istr settings
      \<and> serializeAsTextQuoted t column row_num ostr settings
          = serializeTextQuoted t column row_num ostr settings
      \<and> deserializeAsTextQuoted t column istr settings
          = deserializeTextQuoted t column istr settings
      \<and> serializeAsTextCSV t column row_num ostr settings
          = serializeTextCSV t column row_num ostr settings
      \<and> deserializeAsTextCSV t column istr settings
          = deserializeTextCSV t column istr settings
      \<and> serializeAsText t column row_num ostr settings
          = serializeText t column row_num ostr settings
      \<and> serializeAsTextJSON t column row_num ostr settings
          = serializeTextJSON t column row_num ostr settings
      \<and> deserializeAsTextJSON t column istr settings
          = deserializeTextJSON t column istr settings
      \<and> serializeAsTextXML t column row_num ostr settings
          = serializeTextXML t column row_num ostr settings"
    if "domain t = None \<or> (domain t = Some d \<and> custom_serialization d = None)"
  proof -
    from that have cast: "dynamic_cast_CustomSerialization (domain t) = None"
      by (auto simp: dynamic_cast_CustomSerialization_def)
    show ?thesis
      unfolding AsText_defs cast by simp
  qed
  from inventory custom own show ?thesis
    by blast
qed

text \<open>
  A domain with the capability, a domain without it, and no domain.
\<close>

theorem text_operations_delegate_witness:
  "serializeAsTextCSV
     (appendDomain (recording_type ''UInt32'') (Domain ''IPv4'' (Some (recording ''IPv4'')) None))
     ''column'' 7 ''ostr'' ()
     = (''IPv4'', ''serializeTextCSV'', ''column'', 7, ''ostr'', ())
   \<and> deserializeAsTextJSON
     (appendDomain (recording_type ''UInt32'') (Domain ''IPv4'' (Some (recording ''IPv4'')) None))
     ''column'' ''istr'' ()
     = (''IPv4'', ''deserializeTextJSON'', ''column'', ''istr'', ())
   \<and> serializeAsTextCSV
     (appendDomain (recording_type ''UInt32'') (Domain ''Alias'' None None))
     ''column'' 7 ''ostr'' ()
     = (''UInt32'', ''serializeTextCSV'', ''column'', 7, ''ostr'', ())
   \<and> serializeAsTextXML (recording_type ''UInt32'') ''column'' 7 ''ostr'' ()
     = (''UInt32'', ''serializeTextXML'', ''column'', 7, ''ostr'', ())"
  using
    text_operations_delegate [of
      "appendDomain (recording_type ''UInt32'') (Domain ''IPv4'' (Some (recording ''IPv4'')) None)"
      "Domain ''IPv4'' (Some (recording ''IPv4'')) None" "recording ''IPv4''"
      "''column''" 7 "''ostr''" "()" "''istr''"]
    text_operations_delegate [of
      "appendDomain (recording_type ''UInt32'') (Domain ''Alias'' None None)"
      "Domain ''Alias'' None None" "recording ''IPv4''"
      "''column''" 7 "''ostr''" "()" "''istr''"]
    text_operations_delegate [of
      "recording_type ''UInt32''"
      "Domain ''Alias'' None None" "recording ''IPv4''"
      "''column''" 7 "''ostr''" "()" "''istr''"]
  by (simp add: appendDomain_def fixture_defs)

text \<open>
  Claim C3 as stated fails: the source defines no \<^verbatim>\<open>deserializeAsText\<close> for the plain format
  and no \<^verbatim>\<open>deserializeAsTextXML\<close>.
\<close>

theorem text_operations_missing_deserialize:
  "\<not> has_operation Plain Deserialize \<and> \<not> has_operation XML Deserialize"
  by (simp add: has_operation_def AsText_operations_def)

lemma domain_appendDomain_keeps:
  "display_name (domain_appendDomain h d) = display_name h"
  "custom_serialization (domain_appendDomain h d) = custom_serialization h"
  by (induction h d rule: domain_appendDomain.induct) simp_all

lemma foldl_domain_appendDomain_keeps:
  "display_name (foldl domain_appendDomain h ds) = display_name h"
  "custom_serialization (foldl domain_appendDomain h ds) = custom_serialization h"
  by (induction ds arbitrary: h) (simp_all add: domain_appendDomain_keeps)

lemma foldl_domain_appendDomain_chain:
  "domain_chain (foldl domain_appendDomain h ds) = domain_chain h @ concat (map domain_chain ds)"
  by (induction ds arbitrary: h) (simp_all add: domain_chain_appendDomain)

lemma IDataTypeDomain_getName_appendDomain:
  "IDataTypeDomain_getName (domain_appendDomain h d) = IDataTypeDomain_getName d"
  by (induction h d rule: domain_appendDomain.induct) simp_all

lemma foldl_domain_appendDomain_getName:
  "IDataTypeDomain_getName (foldl domain_appendDomain h ds) = IDataTypeDomain_getName (last (h # ds))"
  by (induction ds arbitrary: h) (simp_all add: IDataTypeDomain_getName_appendDomain)

lemma appendDomain_attached:
  "domain t = Some h \<Longrightarrow> appendDomain t d = t\<lparr>domain := Some (domain_appendDomain h d)\<rparr>"
  by (simp add: appendDomain_def)

lemma foldl_appendDomain_attached:
  "domain t = Some h \<Longrightarrow>
   foldl appendDomain t ds = t\<lparr>domain := Some (foldl domain_appendDomain h ds)\<rparr>"
proof (induction ds arbitrary: t h)
  case Nil
  then show ?case by simp
next
  case (Cons d ds)
  have "domain (t\<lparr>domain := Some (domain_appendDomain h d)\<rparr>) = Some (domain_appendDomain h d)"
    by simp
  from Cons.IH [OF this] Cons.prems show ?case
    by (simp add: appendDomain_attached)
qed

lemma foldl_appendDomain_first:
  assumes "domain t0 = None" and "ds \<noteq> []"
  shows "foldl appendDomain t0 ds = t0\<lparr>domain := Some (foldl domain_appendDomain (hd ds) (tl ds))\<rparr>"
proof -
  from assms(2) obtain d rest where ds: "ds = d # rest"
    by (cases ds) auto
  from assms(1) have first: "appendDomain t0 d = t0\<lparr>domain := Some d\<rparr>"
    by (simp add: appendDomain_def)
  have "domain (t0\<lparr>domain := Some d\<rparr>) = Some d"
    by simp
  from foldl_appendDomain_attached [OF this, of rest] show ?thesis
    by (simp add: ds first)
qed

text \<open>
  Claim C4, as the source has it. After the domains \<open>ds\<close> (at least one) have been appended in
  order to a type without a domain, \<open>getName\<close> gives the name of the most recently appended
  domain, as the claim says. But the domain the type holds, the one the text operations
  consult, is not that one: it is the first-attached domain with the later ones linked behind
  it. It has the first domain's display name and capability, the chain lists the domains in the
  order they were appended, and every text operation uses the first domain's capability, or the
  type's own method when the first domain has none.
\<close>

theorem facade_consults_first_attached_domain:
  "domain t0 = None \<and> ds \<noteq> [] \<longrightarrow>
     domain (foldl appendDomain t0 ds) = Some (foldl domain_appendDomain (hd ds) (tl ds))
   \<and> display_name (foldl domain_appendDomain (hd ds) (tl ds)) = display_name (hd ds)
   \<and> custom_serialization (foldl domain_appendDomain (hd ds) (tl ds)) = custom_serialization (hd ds)
   \<and> attached_chain (foldl appendDomain t0 ds) = concat (map domain_chain ds)
   \<and> getName IDataTypeDomain_getName (foldl appendDomain t0 ds)
       = IDataTypeDomain_getName (last ds)
   \<and> dynamic_cast_CustomSerialization (domain (foldl appendDomain t0 ds))
       = custom_serialization (hd ds)
   \<and> serializeAsTextEscaped (foldl appendDomain t0 ds) column row_num ostr settings
       = (case custom_serialization (hd ds) of
            Some ser_domain \<Rightarrow> serializeTextEscaped ser_domain column row_num ostr settings
          | None \<Rightarrow> serializeTextEscaped t0 column row_num ostr settings)
   \<and> deserializeAsTextEscaped (foldl appendDomain t0 ds) column istr settings
       = (case custom_serialization (hd ds) of
            Some ser_domain \<Rightarrow> deserializeTextEscaped ser_domain column istr settings
          | None \<Rightarrow> deserializeTextEscaped t0 column istr settings)
   \<and> serializeAsTextQuoted (foldl appendDomain t0 ds) column row_num ostr settings
       = (case custom_serialization (hd ds) of
            Some ser_domain \<Rightarrow> serializeTextQuoted ser_domain column row_num ostr settings
          | None \<Rightarrow> serializeTextQuoted t0 column row_num ostr settings)
   \<and> deserializeAsTextQuoted (foldl appendDomain t0 ds) column istr settings
       = (case custom_serialization (hd ds) of
            Some ser_domain \<Rightarrow> deserializeTextQuoted ser_domain column istr settings
          | None \<Rightarrow> deserializeTextQuoted t0 column istr settings)
   \<and> serializeAsTextCSV (foldl appendDomain t0 ds) column row_num ostr settings
       = (case custom_serialization (hd ds) of
            Some ser_domain \<Rightarrow> serializeTextCSV ser_domain column row_num ostr settings
          | None \<Rightarrow> serializeTextCSV t0 column row_num ostr settings)
   \<and> deserializeAsTextCSV (foldl appendDomain t0 ds) column istr settings
       = (case custom_serialization (hd ds) of
            Some ser_domain \<Rightarrow> deserializeTextCSV ser_domain column istr settings
          | None \<Rightarrow> deserializeTextCSV t0 column istr settings)
   \<and> serializeAsText (foldl appendDomain t0 ds) column row_num ostr settings
       = (case custom_serialization (hd ds) of
            Some ser_domain \<Rightarrow> serializeText ser_domain column row_num ostr settings
          | None \<Rightarrow> serializeText t0 column row_num ostr settings)
   \<and> serializeAsTextJSON (foldl appendDomain t0 ds) column row_num ostr settings
       = (case custom_serialization (hd ds) of
            Some ser_domain \<Rightarrow> serializeTextJSON ser_domain column row_num ostr settings
          | None \<Rightarrow> serializeTextJSON t0 column row_num ostr settings)
   \<and> deserializeAsTextJSON (foldl appendDomain t0 ds) column istr settings
       = (case custom_serialization (hd ds) of
            Some ser_domain \<Rightarrow> deserializeTextJSON ser_domain column istr settings
          | None \<Rightarrow> deserializeTextJSON t0 column istr settings)
   \<and> serializeAsTextXML (foldl appendDomain t0 ds) column row_num ostr settings
       = (case custom_serialization (hd ds) of
            Some ser_domain \<Rightarrow> serializeTextXML ser_domain column row_num ostr settings
          | None \<Rightarrow> serializeTextXML t0 column row_num ostr settings)"
proof
  assume prems: "domain t0 = None \<and> ds \<noteq> []"
  define first where "first = foldl domain_appendDomain (hd ds) (tl ds)"
  from prems have t: "foldl appendDomain t0 ds = t0\<lparr>domain := Some first\<rparr>"
    unfolding first_def by (simp add: foldl_appendDomain_first)
  have name: "display_name first = display_name (hd ds)"
    and cap: "custom_serialization first = custom_serialization (hd ds)"
    unfolding first_def by (simp_all add: foldl_domain_appendDomain_keeps)
  from prems have "domain_chain (hd ds) @ concat (map domain_chain (tl ds)) = concat (map domain_chain ds)"
    by (cases ds) simp_all
  then have chain: "attached_chain (foldl appendDomain t0 ds) = concat (map domain_chain ds)"
    by (simp add: t attached_chain_def first_def foldl_domain_appendDomain_chain)
  have cast: "dynamic_cast_CustomSerialization (domain (foldl appendDomain t0 ds))
      = custom_serialization (hd ds)"
    by (simp add: t dynamic_cast_CustomSerialization_def cap)
  from prems have "last (hd ds # tl ds) = last ds"
    by (cases ds) simp_all
  then have gn: "getName IDataTypeDomain_getName (foldl appendDomain t0 ds)
      = IDataTypeDomain_getName (last ds)"
    by (simp add: t getName_def first_def foldl_domain_appendDomain_getName del: last.simps)
  have op0: "serializeAsTextEscaped (foldl appendDomain t0 ds) column row_num ostr settings
      = (case custom_serialization (hd ds) of
           Some ser_domain \<Rightarrow> serializeTextEscaped ser_domain column row_num ostr settings
         | None \<Rightarrow> serializeTextEscaped t0 column row_num ostr settings)"
    unfolding serializeAsTextEscaped_def cast by (simp add: t split: option.split)
  have op1: "deserializeAsTextEscaped (foldl appendDomain t0 ds) column istr settings
      = (case custom_serialization (hd ds) of
           Some ser_domain \<Rightarrow> deserializeTextEscaped ser_domain column istr settings
         | None \<Rightarrow> deserializeTextEscaped t0 column istr settings)"
    unfolding deserializeAsTextEscaped_def cast by (simp add: t split: option.split)
  have op2: "serializeAsTextQuoted (foldl appendDomain t0 ds) column row_num ostr settings
      = (case custom_serialization (hd ds) of
           Some ser_domain \<Rightarrow> serializeTextQuoted ser_domain column row_num ostr settings
         | None \<Rightarrow> serializeTextQuoted t0 column row_num ostr settings)"
    unfolding serializeAsTextQuoted_def cast by (simp add: t split: option.split)
  have op3: "deserializeAsTextQuoted (foldl appendDomain t0 ds) column istr settings
      = (case custom_serialization (hd ds) of
           Some ser_domain \<Rightarrow> deserializeTextQuoted ser_domain column istr settings
         | None \<Rightarrow> deserializeTextQuoted t0 column istr settings)"
    unfolding deserializeAsTextQuoted_def cast by (simp add: t split: option.split)
  have op4: "serializeAsTextCSV (foldl appendDomain t0 ds) column row_num ostr settings
      = (case custom_serialization (hd ds) of
           Some ser_domain \<Rightarrow> serializeTextCSV ser_domain column row_num ostr settings
         | None \<Rightarrow> serializeTextCSV t0 column row_num ostr settings)"
    unfolding serializeAsTextCSV_def cast by (simp add: t split: option.split)
  have op5: "deserializeAsTextCSV (foldl appendDomain t0 ds) column istr settings
      = (case custom_serialization (hd ds) of
           Some ser_domain \<Rightarrow> deserializeTextCSV ser_domain column istr settings
         | None \<Rightarrow> deserializeTextCSV t0 column istr settings)"
    unfolding deserializeAsTextCSV_def cast by (simp add: t split: option.split)
  have op6: "serializeAsText (foldl appendDomain t0 ds) column row_num ostr settings
      = (case custom_serialization (hd ds) of
           Some ser_domain \<Rightarrow> serializeText ser_domain column row_num ostr settings
         | None \<Rightarrow> serializeText t0 column row_num ostr settings)"
    unfolding serializeAsText_def cast by (simp add: t split: option.split)
  have op7: "serializeAsTextJSON (foldl appendDomain t0 ds) column row_num ostr settings
      = (case custom_serialization (hd ds) of
           Some ser_domain \<Rightarrow> serializeTextJSON ser_domain column row_num ostr settings
         | None \<Rightarrow> serializeTextJSON t0 column row_num ostr settings)"
    unfolding serializeAsTextJSON_def cast by (simp add: t split: option.split)
  have op8: "deserializeAsTextJSON (foldl appendDomain t0 ds) column istr settings
      = (case custom_serialization (hd ds) of
           Some ser_domain \<Rightarrow> deserializeTextJSON ser_domain column istr settings
         | None \<Rightarrow> deserializeTextJSON t0 column istr settings)"
    unfolding deserializeAsTextJSON_def cast by (simp add: t split: option.split)
  have op9: "serializeAsTextXML (foldl appendDomain t0 ds) column row_num ostr settings
      = (case custom_serialization (hd ds) of
           Some ser_domain \<Rightarrow> serializeTextXML ser_domain column row_num ostr settings
         | None \<Rightarrow> serializeTextXML t0 column row_num ostr settings)"
    unfolding serializeAsTextXML_def cast by (simp add: t split: option.split)
  from t name cap chain cast gn have chain_facts:
    "domain (foldl appendDomain t0 ds) = Some (foldl domain_appendDomain (hd ds) (tl ds))
    \<and> display_name (foldl domain_appendDomain (hd ds) (tl ds)) = display_name (hd ds)
    \<and> custom_serialization (foldl domain_appendDomain (hd ds) (tl ds)) = custom_serialization (hd ds)
    \<and> attached_chain (foldl appendDomain t0 ds) = concat (map domain_chain ds)
    \<and> getName IDataTypeDomain_getName (foldl appendDomain t0 ds)
        = IDataTypeDomain_getName (last ds)
    \<and> dynamic_cast_CustomSerialization (domain (foldl appendDomain t0 ds))
        = custom_serialization (hd ds)"
    unfolding first_def by simp
  from chain_facts op0 op1 op2 op3 op4 op5 op6 op7 op8 op9
  show "domain (foldl appendDomain t0 ds) = Some (foldl domain_appendDomain (hd ds) (tl ds))
    \<and> display_name (foldl domain_appendDomain (hd ds) (tl ds)) = display_name (hd ds)
    \<and> custom_serialization (foldl domain_appendDomain (hd ds) (tl ds)) = custom_serialization (hd ds)
    \<and> attached_chain (foldl appendDomain t0 ds) = concat (map domain_chain ds)
    \<and> getName IDataTypeDomain_getName (foldl appendDomain t0 ds)
        = IDataTypeDomain_getName (last ds)
    \<and> dynamic_cast_CustomSerialization (domain (foldl appendDomain t0 ds))
        = custom_serialization (hd ds)
    \<and> serializeAsTextEscaped (foldl appendDomain t0 ds) column row_num ostr settings
        = (case custom_serialization (hd ds) of
             Some ser_domain \<Rightarrow> serializeTextEscaped ser_domain column row_num ostr settings
           | None \<Rightarrow> serializeTextEscaped t0 column row_num ostr settings)
    \<and> deserializeAsTextEscaped (foldl appendDomain t0 ds) column istr settings
        = (case custom_serialization (hd ds) of
             Some ser_domain \<Rightarrow> deserializeTextEscaped ser_domain column istr settings
           | None \<Rightarrow> deserializeTextEscaped t0 column istr settings)
    \<and> serializeAsTextQuoted (foldl appendDomain t0 ds) column row_num ostr settings
        = (case custom_serialization (hd ds) of
             Some ser_domain \<Rightarrow> serializeTextQuoted ser_domain column row_num ostr settings
           | None \<Rightarrow> serializeTextQuoted t0 column row_num ostr settings)
    \<and> deserializeAsTextQuoted (foldl appendDomain t0 ds) column istr settings
        = (case custom_serialization (hd ds) of
             Some ser_domain \<Rightarrow> deserializeTextQuoted ser_domain column istr settings
           | None \<Rightarrow> deserializeTextQuoted t0 column istr settings)
    \<and> serializeAsTextCSV (foldl appendDomain t0 ds) column row_num ostr settings
        = (case custom_serialization (hd ds) of
             Some ser_domain \<Rightarrow> serializeTextCSV ser_domain column row_num ostr settings
           | None \<Rightarrow> serializeTextCSV t0 column row_num ostr settings)
    \<and> deserializeAsTextCSV (foldl appendDomain t0 ds) column istr settings
        = (case custom_serialization (hd ds) of
             Some ser_domain \<Rightarrow> deserializeTextCSV ser_domain column istr settings
           | None \<Rightarrow> deserializeTextCSV t0 column istr settings)
    \<and> serializeAsText (foldl appendDomain t0 ds) column row_num ostr settings
        = (case custom_serialization (hd ds) of
             Some ser_domain \<Rightarrow> serializeText ser_domain column row_num ostr settings
           | None \<Rightarrow> serializeText t0 column row_num ostr settings)
    \<and> serializeAsTextJSON (foldl appendDomain t0 ds) column row_num ostr settings
        = (case custom_serialization (hd ds) of
             Some ser_domain \<Rightarrow> serializeTextJSON ser_domain column row_num ostr settings
           | None \<Rightarrow> serializeTextJSON t0 column row_num ostr settings)
    \<and> deserializeAsTextJSON (foldl appendDomain t0 ds) column istr settings
        = (case custom_serialization (hd ds) of
             Some ser_domain \<Rightarrow> deserializeTextJSON ser_domain column istr settings
           | None \<Rightarrow> deserializeTextJSON t0 column istr settings)
    \<and> serializeAsTextXML (foldl appendDomain t0 ds) column row_num ostr settings
        = (case custom_serialization (hd ds) of
             Some ser_domain \<Rightarrow> serializeTextXML ser_domain column row_num ostr settings
           | None \<Rightarrow> serializeTextXML t0 column row_num ostr settings)"
    by blast
qed

text \<open>
  Appending \<^verbatim>\<open>A\<close> (no capability), then \<^verbatim>\<open>B\<close> (with the capability): the name is that of
  \<^verbatim>\<open>B\<close>, the text operations are the type's own.
\<close>

theorem facade_consults_first_attached_domain_witness:
  "domain (recording_type ''UInt32'') = None
   \<and> [Domain ''A'' None None, Domain ''B'' (Some (recording ''B'')) None] \<noteq> []
   \<and> domain (foldl appendDomain (recording_type ''UInt32'')
        [Domain ''A'' None None, Domain ''B'' (Some (recording ''B'')) None])
       = Some (Domain ''A'' None (Some (Domain ''B'' (Some (recording ''B'')) None)))
   \<and> getName IDataTypeDomain_getName (foldl appendDomain (recording_type ''UInt32'')
        [Domain ''A'' None None, Domain ''B'' (Some (recording ''B'')) None]) = ''B''
   \<and> serializeAsTextEscaped (foldl appendDomain (recording_type ''UInt32'')
        [Domain ''A'' None None, Domain ''B'' (Some (recording ''B'')) None]) ''column'' 7 ''ostr'' ()
       = (''UInt32'', ''serializeTextEscaped'', ''column'', 7, ''ostr'', ())"
  using facade_consults_first_attached_domain [of "recording_type ''UInt32''"
      "[Domain ''A'' None None, Domain ''B'' (Some (recording ''B'')) None]"
      "''column''" 7 "''ostr''" "()" "''istr''"]
  by (simp add: fixture_defs)

text \<open>
  Claim C4 as stated fails in its text-dispatch half: after \<^verbatim>\<open>A\<close> and then \<^verbatim>\<open>B\<close> have been
  appended, \<open>getName\<close> gives \<^verbatim>\<open>B\<close>, but the type does not hold the most recently appended
  domain \<^verbatim>\<open>B\<close>. When only \<^verbatim>\<open>B\<close> has the capability, the text operations call the type's own
  methods and not those of \<^verbatim>\<open>B\<close>; when only \<^verbatim>\<open>A\<close> has it, they call those of \<^verbatim>\<open>A\<close>.
\<close>

theorem facade_not_most_recent_domain:
  "getName IDataTypeDomain_getName
       (appendDomain (appendDomain (recording_type ''UInt32'') (Domain ''A'' None None))
         (Domain ''B'' (Some (recording ''B'')) None)) = ''B''
   \<and> domain (appendDomain (appendDomain (recording_type ''UInt32'') (Domain ''A'' None None))
       (Domain ''B'' (Some (recording ''B'')) None))
     \<noteq> Some (Domain ''B'' (Some (recording ''B'')) None)
   \<and> serializeAsTextEscaped
       (appendDomain (appendDomain (recording_type ''UInt32'') (Domain ''A'' None None))
         (Domain ''B'' (Some (recording ''B'')) None)) ''column'' 7 ''ostr'' ()
     = (''UInt32'', ''serializeTextEscaped'', ''column'', 7, ''ostr'', ())
   \<and> serializeAsTextEscaped
       (appendDomain (appendDomain (recording_type ''UInt32'') (Domain ''A'' None None))
         (Domain ''B'' (Some (recording ''B'')) None)) ''column'' 7 ''ostr'' ()
     \<noteq> serializeTextEscaped (recording ''B'') ''column'' 7 ''ostr'' ()
   \<and> serializeAsTextEscaped
       (appendDomain (appendDomain (recording_type ''UInt32'') (Domain ''A'' (Some (recording ''A'')) None))
         (Domain ''B'' None None)) ''column'' 7 ''ostr'' ()
     = (''A'', ''serializeTextEscaped'', ''column'', 7, ''ostr'', ())"
  by (simp add: appendDomain_def getName_def serializeAsTextEscaped_def
      dynamic_cast_CustomSerialization_def fixture_defs)

subsection \<open>Operations that only throw: the claim\<close>

text \<open>
  Claim C9. The base \<open>serializeBinaryBulk\<close> and \<open>deserializeBinaryBulk\<close> always throw
  \<^verbatim>\<open>MULTIPLE_STREAMS_REQUIRED\<close>, \<open>promoteNumericType\<close> always throws
  \<^verbatim>\<open>DATA_TYPE_CANNOT_BE_PROMOTED\<close>, \<open>getSizeOfValueInMemory\<close> always throws \<^verbatim>\<open>LOGICAL_ERROR\<close>, for
  every type and every argument, and each leaves the type and its reference arguments as they
  were.
\<close>

theorem default_operations_throw:
  "thrown_code (fst (serializeBinaryBulk domain_getName t column ostr offset limit))
     = Some MULTIPLE_STREAMS_REQUIRED
   \<and> snd (serializeBinaryBulk domain_getName t column ostr offset limit) = (t, ostr)
   \<and> thrown_code (fst (deserializeBinaryBulk domain_getName t column istr limit avg_value_size_hint))
     = Some MULTIPLE_STREAMS_REQUIRED
   \<and> snd (deserializeBinaryBulk domain_getName t column istr limit avg_value_size_hint)
     = (t, column, istr)
   \<and> thrown_code (fst (promoteNumericType domain_getName t)) = Some DATA_TYPE_CANNOT_BE_PROMOTED
   \<and> snd (promoteNumericType domain_getName t) = t
   \<and> thrown_code (fst (getSizeOfValueInMemory domain_getName t)) = Some LOGICAL_ERROR
   \<and> snd (getSizeOfValueInMemory domain_getName t) = t"
  by (simp add: serializeBinaryBulk_def deserializeBinaryBulk_def promoteNumericType_def
      getSizeOfValueInMemory_def)

subsection \<open>The size-hint estimator: lemmas and claims\<close>

lemma size_t_gt_10: "(10 < (w :: size_t)) = (\<not> unat w \<le> 10)"
  by (simp add: word_less_nat_alt not_le)

lemma std_min_min: "std_min a b = min b a"
  by (simp add: std_min_def min_def)

text \<open>
  Claim C7. For every prior hint \<open>h\<close> and every batch of \<open>n\<close> rows and \<open>b\<close> bytes,
  \<open>updateAvgValueSizeHint\<close> leaves the hint unchanged if \<open>n \<le> 10\<close>; otherwise, with
  \<open>avg = b / n\<close>, the hint becomes \<open>min avg 1024\<close> if \<open>avg > h\<close>, else \<open>(avg + h * 3) / 4\<close> if
  \<open>avg * 2 < h\<close>, else it is unchanged. This holds whatever the rounding is.
\<close>

theorem updateAvgValueSizeHint_rule:
  "updateAvgValueSizeHint rnd column h
     = spec_updated_hint rnd (unat (col_size column)) (unat (col_byteSize column)) h"
  by (simp add: updateAvgValueSizeHint_def spec_updated_hint_def current_avg_value_size_def
      to_double_def size_t_gt_10 std_min_min Let_def)

lemma updateAvgValueSizeHint_small:
  "col_size column \<le> 10 \<Longrightarrow> updateAvgValueSizeHint rnd column h = h"
  by (simp add: updateAvgValueSizeHint_def Let_def not_less [symmetric])

lemma updateAvgValueSizeHint_grow:
  "10 < col_size column \<Longrightarrow> h < current_avg_value_size rnd column \<Longrightarrow>
   updateAvgValueSizeHint rnd column h = min (current_avg_value_size rnd column) 1024"
  by (simp add: updateAvgValueSizeHint_def Let_def std_min_min)

text \<open>
  Claim C10. For every hint \<open>h\<close> and every batch of more than 10 rows whose average value
  size exceeds \<open>h\<close>, the new hint is at most 1024; when moreover \<open>h > 1024\<close> the new hint is
  exactly 1024, which is below \<open>h\<close>: on the grow branch the hint can decrease. This holds
  whatever the rounding is.
\<close>

theorem updateAvgValueSizeHint_grow_capped:
  "10 < col_size column \<and> h < current_avg_value_size rnd column \<longrightarrow>
     updateAvgValueSizeHint rnd column h \<le> 1024
     \<and> (1024 < h \<longrightarrow> updateAvgValueSizeHint rnd column h = 1024
                       \<and> updateAvgValueSizeHint rnd column h < h)"
  by (auto simp: updateAvgValueSizeHint_grow)

text \<open>
  A batch of 11 rows and 33000 bytes (3000 bytes a value) met with the hint 2000: the hint
  drops to 1024.
\<close>

theorem updateAvgValueSizeHint_grow_capped_witness:
  "10 < col_size \<lparr>col_size = 11, col_byteSize = 33000\<rparr>
   \<and> (2000::real) < current_avg_value_size (\<lambda>x. x) \<lparr>col_size = 11, col_byteSize = 33000\<rparr>
   \<and> (1024::real) < 2000
   \<and> current_avg_value_size (\<lambda>x. x) \<lparr>col_size = 11, col_byteSize = 33000\<rparr> = 3000
   \<and> updateAvgValueSizeHint (\<lambda>x. x) \<lparr>col_size = 11, col_byteSize = 33000\<rparr> 2000 = 1024"
  using updateAvgValueSizeHint_grow_capped [of "\<lparr>col_size = 11, col_byteSize = 33000\<rparr>" 2000 "\<lambda>x. x"]
  by (simp add: current_avg_value_size_def to_double_def)

lemma updateAvgValueSizeHint_settled:
  assumes "10 < col_size column" and "current_avg_value_size rnd column = s"
    and "s \<le> rnd (s * 2)"
  shows "updateAvgValueSizeHint rnd column (min s 1024) = min s 1024"
  using assms by (auto simp: updateAvgValueSizeHint_def Let_def std_min_min min_def)

lemma feed_batches_settled:
  assumes "\<forall>column \<in> set columns. 10 < col_size column \<and> current_avg_value_size rnd column = s"
    and "s \<le> rnd (s * 2)"
  shows "feed_batches rnd columns (min s 1024) = min s 1024"
  using assms(1)
proof (induction columns)
  case Nil
  show ?case by (simp add: feed_batches_def)
next
  case (Cons c cs)
  then have "updateAvgValueSizeHint rnd c (min s 1024) = min s 1024"
    using assms(2) by (intro updateAvgValueSizeHint_settled) simp_all
  with Cons show ?case
    by (simp add: feed_batches_def)
qed

lemma feed_batches_small:
  "\<forall>column \<in> set columns. col_size column \<le> 10 \<Longrightarrow> feed_batches rnd columns h = h"
  by (induction columns) (simp_all add: feed_batches_def updateAvgValueSizeHint_small)

text \<open>
  Claim C8, as the source has it. Feed a non-empty sequence of batches, each of more than 10
  rows and of the same per-value size \<open>s\<close> (a size is not negative, so doubling it does not
  give less: \<open>s \<le> rnd (s * 2)\<close>). If the initial hint is below \<open>s\<close>, or equal to \<open>s\<close> with
  \<open>s \<le> 1024\<close>, the hint is \<open>min s 1024\<close> after the first update and after the whole sequence.
  Batches of at most 10 rows never change the hint. Nothing is said of a hint that starts
  above \<open>s\<close>.
\<close>

theorem size_hint_converges_from_below:
  "(columns \<noteq> []
      \<and> (\<forall>column \<in> set columns. 10 < col_size column \<and> current_avg_value_size rnd column = s)
      \<and> s \<le> rnd (s * 2)
      \<and> (h < s \<or> (h = s \<and> s \<le> 1024)) \<longrightarrow>
        updateAvgValueSizeHint rnd (hd columns) h = min s 1024
      \<and> feed_batches rnd columns h = min s 1024)
   \<and> ((\<forall>column \<in> set columns. col_size column \<le> 10) \<longrightarrow> feed_batches rnd columns h = h)"
proof (intro conjI impI)
  assume prems: "columns \<noteq> []
      \<and> (\<forall>column \<in> set columns. 10 < col_size column \<and> current_avg_value_size rnd column = s)
      \<and> s \<le> rnd (s * 2)
      \<and> (h < s \<or> (h = s \<and> s \<le> 1024))"
  then obtain c cs where columns: "columns = c # cs"
    by (cases columns) auto
  from prems columns have c: "10 < col_size c" "current_avg_value_size rnd c = s"
    by simp_all
  from prems have "h < s \<or> (h = s \<and> s \<le> 1024)"
    by simp
  then have first: "updateAvgValueSizeHint rnd c h = min s 1024"
  proof
    assume "h < s"
    with c show ?thesis
      by (simp add: updateAvgValueSizeHint_grow)
  next
    assume "h = s \<and> s \<le> 1024"
    moreover from prems c have "updateAvgValueSizeHint rnd c (min s 1024) = min s 1024"
      by (intro updateAvgValueSizeHint_settled) simp_all
    ultimately show ?thesis
      by simp
  qed
  from prems columns have "feed_batches rnd cs (min s 1024) = min s 1024"
    by (intro feed_batches_settled) simp_all
  with first show "feed_batches rnd columns h = min s 1024"
    by (simp add: feed_batches_def columns)
  from first show "updateAvgValueSizeHint rnd (hd columns) h = min s 1024"
    by (simp add: columns)
next
  assume "\<forall>column \<in> set columns. col_size column \<le> 10"
  then show "feed_batches rnd columns h = h"
    by (rule feed_batches_small)
qed

text \<open>
  Two batches of 60 bytes a value and two of 3000 bytes a value, from the hint 10; the first
  two again from the hint 60; and two batches of at most 10 rows.
\<close>

theorem size_hint_converges_from_below_witness:
  "feed_batches (\<lambda>x. x) [\<lparr>col_size = 11, col_byteSize = 660\<rparr>, \<lparr>col_size = 20, col_byteSize = 1200\<rparr>] 10
     = 60
   \<and> feed_batches (\<lambda>x. x) [\<lparr>col_size = 11, col_byteSize = 33000\<rparr>, \<lparr>col_size = 20, col_byteSize = 60000\<rparr>] 10
     = 1024
   \<and> feed_batches (\<lambda>x. x) [\<lparr>col_size = 11, col_byteSize = 660\<rparr>, \<lparr>col_size = 20, col_byteSize = 1200\<rparr>] 60
     = 60
   \<and> feed_batches (\<lambda>x. x) [\<lparr>col_size = 10, col_byteSize = 600\<rparr>, \<lparr>col_size = 3, col_byteSize = 9000\<rparr>] 10
     = 10"
  using
    size_hint_converges_from_below [of
      "[\<lparr>col_size = 11, col_byteSize = 660\<rparr>, \<lparr>col_size = 20, col_byteSize = 1200\<rparr>]" "\<lambda>x. x" 60 10]
    size_hint_converges_from_below [of
      "[\<lparr>col_size = 11, col_byteSize = 33000\<rparr>, \<lparr>col_size = 20, col_byteSize = 60000\<rparr>]" "\<lambda>x. x" 3000 10]
    size_hint_converges_from_below [of
      "[\<lparr>col_size = 11, col_byteSize = 660\<rparr>, \<lparr>col_size = 20, col_byteSize = 1200\<rparr>]" "\<lambda>x. x" 60 60]
    size_hint_converges_from_below [of
      "[\<lparr>col_size = 10, col_byteSize = 600\<rparr>, \<lparr>col_size = 3, col_byteSize = 9000\<rparr>]" "\<lambda>x. x" 60 10]
  by (simp add: current_avg_value_size_def to_double_def)

lemma funpow_fixed: "f x = x \<Longrightarrow> (f ^^ k) x = x"
  by (induction k) simp_all

text \<open>
  Claim C8 as stated fails: with the hint 100, a batch of 11 rows and 660 bytes (60 bytes a
  value; every operation is exact on these numbers) leaves the hint at 100, since 60 is not
  above 100 and twice 60 is not below 100. So no number of such updates makes the hint
  \<open>min 60 1024 = 60\<close>.
\<close>

theorem size_hint_stuck_above:
  "10 < col_size \<lparr>col_size = 11, col_byteSize = 660\<rparr>
   \<and> current_avg_value_size (\<lambda>x. x) \<lparr>col_size = 11, col_byteSize = 660\<rparr> = 60
   \<and> updateAvgValueSizeHint (\<lambda>x. x) \<lparr>col_size = 11, col_byteSize = 660\<rparr> 100 = 100
   \<and> (\<forall>k. (updateAvgValueSizeHint (\<lambda>x. x) \<lparr>col_size = 11, col_byteSize = 660\<rparr> ^^ k) 100
         \<noteq> min 60 1024)"
proof -
  have avg: "current_avg_value_size (\<lambda>x. x) \<lparr>col_size = 11, col_byteSize = 660\<rparr> = 60"
    by (simp add: current_avg_value_size_def to_double_def)
  have fixed: "updateAvgValueSizeHint (\<lambda>x. x) \<lparr>col_size = 11, col_byteSize = 660\<rparr> 100 = 100"
    by (simp add: updateAvgValueSizeHint_def avg)
  have "(updateAvgValueSizeHint (\<lambda>x. x) \<lparr>col_size = 11, col_byteSize = 660\<rparr> ^^ k) 100 = 100" for k
    using fixed by (rule funpow_fixed)
  with avg fixed show ?thesis
    by simp
qed


end
